theory Spec2Isabelle
  imports Complex_Main
begin

section \<open>Exceptions (exceptions.py)\<close>

text \<open>
  The exception classes of \<^verbatim>\<open>exceptions.py\<close>, the built-in root \<^verbatim>\<open>Exception\<close>, and
  \<open>OtherException n\<close> for any other class named \<open>n\<close> that derives directly from
  \<^verbatim>\<open>Exception\<close> (for example the \<^verbatim>\<open>ValueError\<close> of \<^verbatim>\<open>time.sleep\<close>).
  Only subclasses of \<^verbatim>\<open>Exception\<close> are modelled: these are what every
  \<^verbatim>\<open>except Exception\<close> of the program catches.
\<close>

datatype exc_class =
    Exception
  | OtherException string
  | CallAgentError
  | TransientError
  | TimeoutError
  | NetworkError
  | ServiceUnavailableError
  | RateLimitError
  | PermanentError
  | AuthenticationError
  | InvalidPayloadError
  | QuotaExceededError
  | ResourceNotFoundError

text \<open>The method resolution order of each class: the class itself, then its bases.\<close>

fun mro :: "exc_class \<Rightarrow> exc_class list" where
  "mro Exception = [Exception]"
| "mro (OtherException n) = [OtherException n, Exception]"
| "mro CallAgentError = [CallAgentError, Exception]"
| "mro TransientError = [TransientError, CallAgentError, Exception]"
| "mro TimeoutError = [TimeoutError, TransientError, CallAgentError, Exception]"
| "mro NetworkError = [NetworkError, TransientError, CallAgentError, Exception]"
| "mro ServiceUnavailableError =
     [ServiceUnavailableError, TransientError, CallAgentError, Exception]"
| "mro RateLimitError = [RateLimitError, TransientError, CallAgentError, Exception]"
| "mro PermanentError = [PermanentError, CallAgentError, Exception]"
| "mro AuthenticationError = [AuthenticationError, PermanentError, CallAgentError, Exception]"
| "mro InvalidPayloadError = [InvalidPayloadError, PermanentError, CallAgentError, Exception]"
| "mro QuotaExceededError = [QuotaExceededError, PermanentError, CallAgentError, Exception]"
| "mro ResourceNotFoundError =
     [ResourceNotFoundError, PermanentError, CallAgentError, Exception]"

text \<open>
  An exception instance: its class, its message (\<^verbatim>\<open>str(e)\<close>, and \<^verbatim>\<open>e.message\<close> of a
  \<^verbatim>\<open>CallAgentError\<close>) and the \<^verbatim>\<open>service_name\<close> attribute (\<open>None\<close> when not given).
\<close>

datatype exc = Exc (exc_cls: exc_class) (message: string) (exc_service_name: "string option")

definition isinstance :: "exc \<Rightarrow> exc_class \<Rightarrow> bool" where
  "isinstance e c = (c \<in> set (mro (exc_cls e)))"

text \<open>Decimal rendering of an integer, as an f-string prints it.\<close>

fun str_nat :: "nat \<Rightarrow> string" where
  "str_nat n =
     (if n < 10 then [''0123456789'' ! n]
      else str_nat (n div 10) @ [''0123456789'' ! (n mod 10)])"

declare str_nat.simps [simp del]

definition str_int :: "int \<Rightarrow> string" where
  "str_int i = (if i < 0 then ''-'' @ str_nat (nat (- i)) else str_nat (nat i))"

definition classify_error :: "int \<Rightarrow> string \<Rightarrow> exc" where
  "classify_error status_code error_message =
     (if status_code = 503 then
        Exc ServiceUnavailableError (''Service unavailable (503): '' @ error_message) None
      else if status_code = 429 then
        Exc RateLimitError (''Rate limit exceeded (429): '' @ error_message) None
      else if status_code = 408 \<or> status_code = 504 then
        Exc TimeoutError
          (''Request timeout ('' @ str_int status_code @ ''): '' @ error_message) None
      else if status_code = 401 \<or> status_code = 403 then
        Exc AuthenticationError
          (''Authentication failed ('' @ str_int status_code @ ''): '' @ error_message) None
      else if status_code = 404 then
        Exc ResourceNotFoundError (''Resource not found (404): '' @ error_message) None
      else if status_code = 400 then
        Exc InvalidPayloadError (''Invalid request (400): '' @ error_message) None
      else if 500 \<le> status_code \<and> status_code < 600 then
        Exc TransientError
          (''Server error ('' @ str_int status_code @ ''): '' @ error_message) None
      else
        Exc PermanentError
          (''Unknown error ('' @ str_int status_code @ ''): '' @ error_message) None)"

section \<open>The world callables run in\<close>

text \<open>
  A world is the reading of the clock (what \<^verbatim>\<open>time.time()\<close> returns now) paired with the
  state \<open>'s\<close> that the wrapped callables own. A callable takes the world, and returns
  either the exception it raised (\<open>Inl\<close>) or its result (\<open>Inr\<close>), with the world it
  leaves behind; it may let any amount of time pass. Console output is not modelled.
\<close>

type_synonym 's world = "real \<times> 's"

type_synonym ('s, 'a) callable = "'s world \<Rightarrow> (exc + 'a) \<times> 's world"

section \<open>Circuit breaker (circuit\_breaker.py)\<close>

datatype CircuitState = CLOSED | OPEN | HALF_OPEN

text \<open>The \<^verbatim>\<open>.value\<close> of each member of the enum.\<close>

fun state_value :: "CircuitState \<Rightarrow> string" where
  "state_value CLOSED = ''CLOSED''"
| "state_value OPEN = ''OPEN''"
| "state_value HALF_OPEN = ''HALF_OPEN''"

record CircuitBreaker =
  failure_threshold :: int
  timeout :: real
  service_name :: string
  state :: CircuitState
  failure_count :: int
  last_failure_time :: "real option"
  success_count :: int

text \<open>\<^verbatim>\<open>CircuitBreaker.__init__\<close>.\<close>

definition new_CircuitBreaker :: "int \<Rightarrow> real \<Rightarrow> string \<Rightarrow> CircuitBreaker" where
  "new_CircuitBreaker threshold tmo name =
     \<lparr>failure_threshold = threshold, timeout = tmo, service_name = name,
      state = CLOSED, failure_count = 0, last_failure_time = None, success_count = 0\<rparr>"

text \<open>
  \<^verbatim>\<open>_should_attempt_reset\<close>, \<^verbatim>\<open>_on_success\<close> and \<^verbatim>\<open>_on_failure\<close> (an identifier
  cannot start with an underscore here); \<open>now\<close> is what \<^verbatim>\<open>time.time()\<close> returns
  at that point.
\<close>

definition should_attempt_reset :: "CircuitBreaker \<Rightarrow> real \<Rightarrow> bool" where
  "should_attempt_reset b now =
     (case last_failure_time b of
        None \<Rightarrow> False
      | Some t \<Rightarrow> now - t \<ge> timeout b)"

definition on_success :: "CircuitBreaker \<Rightarrow> CircuitBreaker" where
  "on_success b =
     (if state b = HALF_OPEN then b\<lparr>state := CLOSED, failure_count := 0, success_count := 0\<rparr>
      else if state b = CLOSED then b\<lparr>failure_count := 0\<rparr>
      else b)"

definition on_failure :: "CircuitBreaker \<Rightarrow> real \<Rightarrow> CircuitBreaker" where
  "on_failure b now =
     (let b1 = b\<lparr>failure_count := failure_count b + 1, last_failure_time := Some now\<rparr>
      in if state b1 = HALF_OPEN then b1\<lparr>state := OPEN\<rparr>
         else if state b1 = CLOSED then
           (if failure_count b1 \<ge> failure_threshold b1 then b1\<lparr>state := OPEN\<rparr> else b1)
         else b1)"

text \<open>The exception \<^verbatim>\<open>call\<close> raises when it fails fast: a plain \<^verbatim>\<open>Exception\<close>.\<close>

definition circuit_open_error :: "CircuitBreaker \<Rightarrow> exc" where
  "circuit_open_error b =
     Exc Exception ('' [Circuit breaker] OPEN for '' @ service_name b @ '' - failing fast'') None"

text \<open>
  The first statement of \<^verbatim>\<open>call\<close> (the check of the OPEN state): the breaker as the
  \<^verbatim>\<open>try\<close> block finds it, or the exception raised instead.
\<close>

definition call_gate :: "CircuitBreaker \<Rightarrow> real \<Rightarrow> exc + CircuitBreaker" where
  "call_gate b now =
     (if state b = OPEN then
        (if should_attempt_reset b now then Inr (b\<lparr>state := HALF_OPEN\<rparr>)
         else Inl (circuit_open_error b))
      else Inr b)"

text \<open>
  \<^verbatim>\<open>call\<close>: the outcome, the breaker and the world afterwards. The wrapped function is
  taken not to touch the breaker that guards it.
\<close>

definition call :: "CircuitBreaker \<Rightarrow> ('s, 'a) callable \<Rightarrow> 's world
    \<Rightarrow> (exc + 'a) \<times> CircuitBreaker \<times> 's world" where
  "call b func w =
     (case call_gate b (fst w) of
        Inl e \<Rightarrow> (Inl e, b, w)
      | Inr b1 \<Rightarrow>
         (case func w of
            (Inr result, w1) \<Rightarrow> (Inr result, on_success b1, w1)
          | (Inl e, w1) \<Rightarrow> (Inl e, on_failure b1 (fst w1), w1)))"

definition get_state :: "CircuitBreaker \<Rightarrow> string \<times> int \<times> string" where
  "get_state b = (state_value (state b), failure_count b, service_name b)"

definition reset :: "CircuitBreaker \<Rightarrow> CircuitBreaker" where
  "reset b = b\<lparr>state := CLOSED, failure_count := 0, last_failure_time := None\<rparr>"

section \<open>Retry manager (retry\_manager.py)\<close>

record RetryManager =
  initial_delay :: real
  backoff_multiplier :: real
  max_attempts :: int

text \<open>
  \<^verbatim>\<open>time.sleep(secs)\<close>: the clock moves on by \<open>secs\<close>; a negative argument raises
  \<^verbatim>\<open>ValueError\<close> and nothing else happens.
\<close>

definition time_sleep :: "real \<Rightarrow> 's world \<Rightarrow> exc + 's world" where
  "time_sleep secs w =
     (if secs < 0 then
        Inl (Exc (OtherException ''ValueError'') ''sleep length must be non-negative'' None)
      else Inr (fst w + secs, snd w))"

text \<open>
  What \<^verbatim>\<open>execute_with_retry\<close> itself does, in order: \<open>Invoke\<close> for each
  \<^verbatim>\<open>func(*args, **kwargs)\<close>, \<open>Sleep d\<close> for each \<^verbatim>\<open>time.sleep(d)\<close> that returned.
\<close>

datatype action = Invoke | Sleep real

text \<open>
  The \<^verbatim>\<open>while\<close> loop of \<^verbatim>\<open>execute_with_retry\<close>, from the loop variables \<open>attempt\<close> and
  \<open>current_delay\<close>. The result is \<open>Inl e\<close> when \<open>e\<close> is raised, \<open>Inr (Some r)\<close> when
  \<open>r\<close> is returned, and \<open>Inr None\<close> when the loop ends without entering its body and the
  method returns \<^verbatim>\<open>None\<close>; with it come the world afterwards and the actions taken.
  An exception raised by \<^verbatim>\<open>time.sleep\<close> inside the handler leaves the method as it is.
\<close>

function retry_loop :: "RetryManager \<Rightarrow> ('s, 'a) callable \<Rightarrow> int \<Rightarrow> real \<Rightarrow> 's world
    \<Rightarrow> (exc + 'a option) \<times> 's world \<times> action list" where
  "retry_loop rm func attempt current_delay w =
     (if attempt < max_attempts rm then
        (case func w of
           (Inr result, w1) \<Rightarrow> (Inr (Some result), w1, [Invoke])
         | (Inl e, w1) \<Rightarrow>
            if isinstance e TransientError then
              (if attempt + 1 \<ge> max_attempts rm then (Inl e, w1, [Invoke])
               else
                 (case time_sleep current_delay w1 of
                    Inl err \<Rightarrow> (Inl err, w1, [Invoke])
                  | Inr w2 \<Rightarrow>
                     (case retry_loop rm func (attempt + 1)
                             (current_delay * backoff_multiplier rm) w2 of
                        (r, w3, acts) \<Rightarrow> (r, w3, Invoke # Sleep current_delay # acts))))
            else if isinstance e PermanentError then (Inl e, w1, [Invoke])
            else (Inl e, w1, [Invoke]))
      else (Inr None, w, []))"
  by pat_completeness auto
termination
  by (relation "measure (\<lambda>(rm, func, attempt, current_delay, w). nat (max_attempts rm - attempt))")
     auto

declare retry_loop.simps [simp del]

definition execute_with_retry :: "RetryManager \<Rightarrow> ('s, 'a) callable \<Rightarrow> 's world
    \<Rightarrow> (exc + 'a option) \<times> 's world \<times> action list" where
  "execute_with_retry rm func w = retry_loop rm func 0 (initial_delay rm) w"

section \<open>Logger and alert system (logger.py, alerts.py)\<close>

text \<open>
  The JSON file of each collaborator is the list of its records, oldest first; the
  timestamp is the clock reading. Failures of the file system are not modelled, and
  \<^verbatim>\<open>additional_info\<close>, which the agent never passes, is left out.
\<close>

record log_entry =
  log_timestamp :: real
  log_service_name :: string
  error_type :: string
  error_message :: string
  retry_count :: int
  circuit_state :: string

record alert =
  alert_timestamp :: real
  severity :: string
  alert_service_name :: string
  alert_message :: string
  status :: string

definition log_error :: "log_entry list \<Rightarrow> real \<Rightarrow> string \<Rightarrow> string \<Rightarrow> string \<Rightarrow> int
    \<Rightarrow> string \<Rightarrow> log_entry list" where
  "log_error logs now name etype msg retries cstate =
     logs @ [\<lparr>log_timestamp = now, log_service_name = name, error_type = etype,
              error_message = msg, retry_count = retries, circuit_state = cstate\<rparr>]"

definition send_alert :: "alert list \<Rightarrow> real \<Rightarrow> string \<Rightarrow> string \<Rightarrow> string \<Rightarrow> alert list" where
  "send_alert alerts now sev name msg =
     alerts @ [\<lparr>alert_timestamp = now, severity = sev, alert_service_name = name,
                alert_message = msg, status = ''UNRESOLVED''\<rparr>]"

section \<open>Call agent (call\_agent.py)\<close>

record CallAgent =
  retry_manager :: RetryManager
  stt_breaker :: CircuitBreaker
  llm_breaker :: CircuitBreaker
  tts_breaker :: CircuitBreaker
  logger :: "log_entry list"
  alert_system :: "alert list"

text \<open>
  \<^verbatim>\<open>CallAgent.__init__\<close>; the two files keep what they held before (\<open>logs\<close>, \<open>alerts\<close>).
\<close>

definition new_CallAgent :: "log_entry list \<Rightarrow> alert list \<Rightarrow> CallAgent" where
  "new_CallAgent logs alerts =
     \<lparr>retry_manager = \<lparr>initial_delay = 5, backoff_multiplier = 2, max_attempts = 3\<rparr>,
      stt_breaker = new_CircuitBreaker 3 60 ''STT'',
      llm_breaker = new_CircuitBreaker 3 60 ''LLM'',
      tts_breaker = new_CircuitBreaker 3 60 ''TTS'',
      logger = logs, alert_system = alerts\<rparr>"

text \<open>
  The three services: \<^verbatim>\<open>stt_service.transcribe\<close>, \<^verbatim>\<open>llm_service.generate_response\<close>
  and \<^verbatim>\<open>tts_service.synthesize\<close>. A stage hands on what its method returned, which is
  \<^verbatim>\<open>None\<close> when the retry loop was never entered.
\<close>

record ('s, 'i, 't, 'r, 'o) services =
  transcribe :: "'i \<Rightarrow> ('s, 't) callable"
  generate_response :: "'t option \<Rightarrow> ('s, 'r) callable"
  synthesize :: "'r option \<Rightarrow> ('s, 'o) callable"

text \<open>
  \<^verbatim>\<open>lambda: breaker.call(f, x)\<close>: a callable whose state holds the breaker it closes over.
\<close>

definition through_breaker :: "('s, 'a) callable \<Rightarrow> (CircuitBreaker \<times> 's, 'a) callable" where
  "through_breaker f =
     (\<lambda>(now, b, s). case call b f (now, s) of (r, b', now', s') \<Rightarrow> (r, now', b', s'))"

text \<open>
  The \<^verbatim>\<open>try\<close> body shared by the three \<^verbatim>\<open>_call_*_service\<close> methods:
  \<^verbatim>\<open>retry_manager.execute_with_retry(func=lambda: breaker.call(f, x), ...)\<close>.
\<close>

definition guarded_call :: "RetryManager \<Rightarrow> CircuitBreaker \<Rightarrow> ('s, 'a) callable \<Rightarrow> 's world
    \<Rightarrow> (exc + 'a option) \<times> CircuitBreaker \<times> 's world" where
  "guarded_call rm b f w =
     (case execute_with_retry rm (through_breaker f) (fst w, b, snd w) of
        (r, (now', b', s'), acts) \<Rightarrow> (r, b', now', s'))"

text \<open>
  The two \<^verbatim>\<open>except\<close> clauses the three methods share, up to the service name and the
  breaker read: what they write before the exception is raised again. An exception that
  is neither a \<^verbatim>\<open>TransientError\<close> nor a \<^verbatim>\<open>PermanentError\<close> matches no clause.
\<close>

definition stage_handlers :: "string \<Rightarrow> CircuitBreaker \<Rightarrow> exc \<Rightarrow> real \<Rightarrow> CallAgent \<Rightarrow> CallAgent" where
  "stage_handlers name b e now ag =
     (if isinstance e TransientError then
        ag\<lparr>logger := log_error (logger ag) now name ''TransientError'' (message e) 0
                        (fst (get_state b)),
           alert_system := send_alert (alert_system ag) now ''MEDIUM'' name
                        (''Transient error: '' @ message e)\<rparr>
      else if isinstance e PermanentError then
        ag\<lparr>logger := log_error (logger ag) now name ''PermanentError'' (message e) 0
                        (fst (get_state b)),
           alert_system := send_alert (alert_system ag) now ''HIGH'' name
                        (''Permanent error: '' @ message e)\<rparr>
      else ag)"

definition call_stt_service :: "CallAgent \<Rightarrow> ('s, 'a) callable \<Rightarrow> 's world
    \<Rightarrow> (exc + 'a option) \<times> CallAgent \<times> 's world" where
  "call_stt_service ag f w =
     (case guarded_call (retry_manager ag) (stt_breaker ag) f w of
        (Inr result, b, w1) \<Rightarrow> (Inr result, ag\<lparr>stt_breaker := b\<rparr>, w1)
      | (Inl e, b, w1) \<Rightarrow>
          (Inl e, stage_handlers ''STT'' b e (fst w1) (ag\<lparr>stt_breaker := b\<rparr>), w1))"

definition call_llm_service :: "CallAgent \<Rightarrow> ('s, 'a) callable \<Rightarrow> 's world
    \<Rightarrow> (exc + 'a option) \<times> CallAgent \<times> 's world" where
  "call_llm_service ag f w =
     (case guarded_call (retry_manager ag) (llm_breaker ag) f w of
        (Inr result, b, w1) \<Rightarrow> (Inr result, ag\<lparr>llm_breaker := b\<rparr>, w1)
      | (Inl e, b, w1) \<Rightarrow>
          (Inl e, stage_handlers ''LLM'' b e (fst w1) (ag\<lparr>llm_breaker := b\<rparr>), w1))"

definition call_tts_service :: "CallAgent \<Rightarrow> ('s, 'a) callable \<Rightarrow> 's world
    \<Rightarrow> (exc + 'a option) \<times> CallAgent \<times> 's world" where
  "call_tts_service ag f w =
     (case guarded_call (retry_manager ag) (tts_breaker ag) f w of
        (Inr result, b, w1) \<Rightarrow> (Inr result, ag\<lparr>tts_breaker := b\<rparr>, w1)
      | (Inl e, b, w1) \<Rightarrow>
          (Inl e, stage_handlers ''TTS'' b e (fst w1) (ag\<lparr>tts_breaker := b\<rparr>), w1))"

text \<open>
  The \<^verbatim>\<open>try\<close> block of \<^verbatim>\<open>process_call\<close>: the exception that leaves it, or the value
  it returns, with the agent and the world afterwards.
\<close>

definition process_call_body :: "CallAgent \<Rightarrow> ('s, 'i, 't, 'r, 'o) services \<Rightarrow> 'i \<Rightarrow> 's world
    \<Rightarrow> (exc + 'o option) \<times> CallAgent \<times> 's world" where
  "process_call_body ag svcs audio_input w =
     (case call_stt_service ag (transcribe svcs audio_input) w of
        (Inl e, ag1, w1) \<Rightarrow> (Inl e, ag1, w1)
      | (Inr text, ag1, w1) \<Rightarrow>
         (case call_llm_service ag1 (generate_response svcs text) w1 of
            (Inl e, ag2, w2) \<Rightarrow> (Inl e, ag2, w2)
          | (Inr response, ag2, w2) \<Rightarrow>
             (case call_tts_service ag2 (synthesize svcs response) w2 of
                (Inl e, ag3, w3) \<Rightarrow> (Inl e, ag3, w3)
              | (Inr audio_output, ag3, w3) \<Rightarrow> (Inr audio_output, ag3, w3))))"

text \<open>
  \<^verbatim>\<open>process_call\<close>: the value returned, with the agent and the world afterwards. The
  \<^verbatim>\<open>except Exception\<close> clause prints the failure and the method then returns Python's
  \<^verbatim>\<open>None\<close>, here \<open>None\<close>.
\<close>

definition process_call :: "CallAgent \<Rightarrow> ('s, 'i, 't, 'r, 'o) services \<Rightarrow> 'i \<Rightarrow> 's world
    \<Rightarrow> 'o option \<times> CallAgent \<times> 's world" where
  "process_call ag svcs audio_input w =
     (case process_call_body ag svcs audio_input w of
        (Inr audio_output, ag', w') \<Rightarrow> (audio_output, ag', w')
      | (Inl e, ag', w') \<Rightarrow> (None, ag', w'))"

section \<open>Observing invocations\<close>

text \<open>
  \<open>counted f\<close> behaves as \<open>f\<close> and adds one to a counter, kept beside the state of \<open>f\<close>,
  each time it is entered; \<open>uncounted f\<close> behaves as \<open>f\<close> and leaves the counter alone.
\<close>

definition counted :: "('s, 'a) callable \<Rightarrow> (nat \<times> 's, 'a) callable" where
  "counted f = (\<lambda>(now, n, s). case f (now, s) of (r, now', s') \<Rightarrow> (r, now', Suc n, s'))"

definition uncounted :: "('s, 'a) callable \<Rightarrow> (nat \<times> 's, 'a) callable" where
  "uncounted f = (\<lambda>(now, n, s). case f (now, s) of (r, now', s') \<Rightarrow> (r, now', n, s'))"

text \<open>Calls made one after the other through the same breaker, outcomes dropped.\<close>

fun call_each :: "CircuitBreaker \<Rightarrow> ('s, 'a) callable list \<Rightarrow> 's world
    \<Rightarrow> CircuitBreaker \<times> 's world" where
  "call_each b [] w = (b, w)"
| "call_each b (f # fs) w = (case call b f w of (r, b', w') \<Rightarrow> call_each b' fs w')"

text \<open>A callable that raises whenever it is invoked.\<close>

definition always_fails :: "('s, 'a) callable \<Rightarrow> bool" where
  "always_fails f = (\<forall>w. isl (fst (f w)))"

text \<open>A callable that raises a \<^verbatim>\<open>TransientError\<close> whenever it is invoked.\<close>

definition always_transient :: "('s, 'a) callable \<Rightarrow> bool" where
  "always_transient f =
     (\<forall>w. case fst (f w) of Inl e \<Rightarrow> isinstance e TransientError | Inr r \<Rightarrow> False)"

text \<open>The number of invocations in a list of actions, and the delays slept, in order.\<close>

definition invocations :: "action list \<Rightarrow> nat" where
  "invocations acts = length (filter (\<lambda>a. a = Invoke) acts)"

fun delays :: "action list \<Rightarrow> real list" where
  "delays [] = []"
| "delays (Invoke # acts) = delays acts"
| "delays (Sleep d # acts) = d # delays acts"

text \<open>
  The services with the stages after the first counted (\<open>count_from_llm\<close>), and with
  the last stage alone counted (\<open>count_from_tts\<close>).
\<close>

definition count_from_llm :: "('s, 'i, 't, 'r, 'o) services
    \<Rightarrow> (nat \<times> 's, 'i, 't, 'r, 'o) services" where
  "count_from_llm svcs =
     \<lparr>transcribe = (\<lambda>x. uncounted (transcribe svcs x)),
      generate_response = (\<lambda>x. counted (generate_response svcs x)),
      synthesize = (\<lambda>x. counted (synthesize svcs x))\<rparr>"

definition count_from_tts :: "('s, 'i, 't, 'r, 'o) services
    \<Rightarrow> (nat \<times> 's, 'i, 't, 'r, 'o) services" where
  "count_from_tts svcs =
     \<lparr>transcribe = (\<lambda>x. uncounted (transcribe svcs x)),
      generate_response = (\<lambda>x. uncounted (generate_response svcs x)),
      synthesize = (\<lambda>x. counted (synthesize svcs x))\<rparr>"

text \<open>The invocation counter of a world that carries one.\<close>

definition counter :: "(nat \<times> 's) world \<Rightarrow> nat" where
  "counter w = fst (snd w)"

section \<open>Error classification\<close>

lemma isinstance_Exc [simp]: "isinstance (Exc c m sv) d = (d \<in> set (mro c))"
  by (simp add: isinstance_def)

text \<open>
  Claim C6. \<^verbatim>\<open>classify_error\<close> is a function of its two arguments alone, defined on
  every integer status code: it yields \<^verbatim>\<open>ServiceUnavailableError\<close> for 503,
  \<^verbatim>\<open>RateLimitError\<close> for 429, \<^verbatim>\<open>TimeoutError\<close> for 408 and 504,
  \<^verbatim>\<open>AuthenticationError\<close> for 401 and 403, \<^verbatim>\<open>ResourceNotFoundError\<close> for 404,
  \<^verbatim>\<open>InvalidPayloadError\<close> for 400, the generic \<^verbatim>\<open>TransientError\<close> for every other code
  from 500 to 599, and the generic \<^verbatim>\<open>PermanentError\<close> for every remaining code; the
  message plays no part in the choice.
\<close>

theorem classify_error_kinds:
  "exc_cls (classify_error 503 m) = ServiceUnavailableError
   \<and> exc_cls (classify_error 429 m) = RateLimitError
   \<and> exc_cls (classify_error 408 m) = TimeoutError
   \<and> exc_cls (classify_error 504 m) = TimeoutError
   \<and> exc_cls (classify_error 401 m) = AuthenticationError
   \<and> exc_cls (classify_error 403 m) = AuthenticationError
   \<and> exc_cls (classify_error 404 m) = ResourceNotFoundError
   \<and> exc_cls (classify_error 400 m) = InvalidPayloadError
   \<and> (500 \<le> c \<and> c < 600 \<and> c \<noteq> 503 \<and> c \<noteq> 504
        \<longrightarrow> exc_cls (classify_error c m) = TransientError)
   \<and> (\<not> (500 \<le> c \<and> c < 600) \<and> c \<notin> {400, 401, 403, 404, 408, 429}
        \<longrightarrow> exc_cls (classify_error c m) = PermanentError)
   \<and> exc_cls (classify_error c m) = exc_cls (classify_error c m')"
  by (simp add: classify_error_def)

theorem classify_error_kinds_witness:
  "exc_cls (classify_error 502 ''bad gateway'') = TransientError
   \<and> exc_cls (classify_error 418 ''teapot'') = PermanentError
   \<and> message (classify_error 504 ''late'') = ''Request timeout (504): late''"
  using classify_error_kinds [of "''bad gateway''" 502 "''x''"]
        classify_error_kinds [of "''teapot''" 418 "''x''"]
  by (simp add: classify_error_def str_int_def str_nat.simps)

section \<open>The circuit breaker's state machine\<close>

lemma call_closed_failure:
  assumes "state b = CLOSED" and "f w = (Inl e, w1)"
  shows "call b f w = (Inl e, on_failure b (fst w1), w1)"
  using assms by (simp add: call_def call_gate_def)

lemma call_each_closed_failures:
  assumes "\<forall>f\<in>set fs. always_fails f" and "state b = CLOSED" and "fs \<noteq> []"
    and "failure_count b + int (length fs) \<le> failure_threshold b"
  shows "state (fst (call_each b fs w)) =
           (if failure_count b + int (length fs) = failure_threshold b then OPEN else CLOSED)
       \<and> last_failure_time (fst (call_each b fs w)) = Some (fst (snd (call_each b fs w)))"
  using assms
proof (induction fs arbitrary: b w)
  case Nil
  then show ?case by simp
next
  case (Cons f fs)
  from Cons.prems(1) have "always_fails f" by simp
  then have "isl (fst (f w))" unfolding always_fails_def by blast
  then obtain e w1 where fw: "f w = (Inl e, w1)"
    by (cases "f w") (auto simp: isl_def)
  let ?b1 = "on_failure b (fst w1)"
  have step: "call_each b (f # fs) w = call_each ?b1 fs w1"
    using Cons.prems(2) fw by (simp add: call_closed_failure [of b f w e w1])
  show ?case
  proof (cases "fs = []")
    case True
    with Cons.prems step show ?thesis
      by (auto simp: on_failure_def Let_def)
  next
    case False
    with Cons.prems have lt: "failure_count b + 1 < failure_threshold b" by (cases fs) auto
    with Cons.prems have b1: "state ?b1 = CLOSED" "failure_count ?b1 = failure_count b + 1"
      "failure_threshold ?b1 = failure_threshold b"
      by (auto simp: on_failure_def Let_def)
    have "\<forall>f\<in>set fs. always_fails f" using Cons.prems(1) by simp
    moreover have "failure_count ?b1 + int (length fs) \<le> failure_threshold ?b1"
      using Cons.prems(4) b1 by simp
    ultimately show ?thesis
      using Cons.IH [of ?b1 w1] b1 False step by simp
  qed
qed

text \<open>
  Claim C1. A breaker with threshold \<open>T \<ge> 1\<close> that is CLOSED with no failure counted
  stays CLOSED through fewer than \<open>T\<close> consecutive failing calls, and is OPEN after
  exactly \<open>T\<close> of them, with the time of the last failure recorded: the \<open>T\<close>-th failing
  call trips it and none before.
\<close>

theorem threshold_trips_breaker:
  assumes "state b = CLOSED" and "failure_count b = 0" and "1 \<le> failure_threshold b"
    and "\<forall>f\<in>set fs. always_fails f"
  shows "(int (length fs) < failure_threshold b \<longrightarrow> state (fst (call_each b fs w)) = CLOSED)
       \<and> (int (length fs) = failure_threshold b \<longrightarrow>
            state (fst (call_each b fs w)) = OPEN
          \<and> last_failure_time (fst (call_each b fs w)) = Some (fst (snd (call_each b fs w))))"
proof (cases "fs = []")
  case True
  with assms show ?thesis by simp
next
  case False
  show ?thesis
    using call_each_closed_failures [OF assms(4) assms(1) False, of w] assms(2) by auto
qed

theorem threshold_trips_breaker_witness:
  "state (fst (call_each (new_CircuitBreaker 3 60 ''STT'')
       [\<lambda>(now, s). (Inl (Exc TimeoutError ''STT service timeout'' (Some ''STT'')), (now + 1, s)),
        \<lambda>(now, s). (Inl (Exc NetworkError ''STT network connection failed'' (Some ''STT'')),
                     (now + 1, s))]
       (100, ()))) = CLOSED
   \<and> state (fst (call_each (new_CircuitBreaker 3 60 ''STT'')
       [\<lambda>(now, s). (Inl (Exc TimeoutError ''STT service timeout'' (Some ''STT'')), (now + 1, s)),
        \<lambda>(now, s). (Inl (Exc NetworkError ''STT network connection failed'' (Some ''STT'')),
                     (now + 1, s)),
        \<lambda>(now, s). (Inl (Exc AuthenticationError ''STT authentication failed'' (Some ''STT'')),
                     (now + 1, s))]
       (100, ()))) = OPEN
   \<and> last_failure_time (fst (call_each (new_CircuitBreaker 3 60 ''STT'')
       [\<lambda>(now, s). (Inl (Exc TimeoutError ''STT service timeout'' (Some ''STT'')), (now + 1, s)),
        \<lambda>(now, s). (Inl (Exc NetworkError ''STT network connection failed'' (Some ''STT'')),
                     (now + 1, s)),
        \<lambda>(now, s). (Inl (Exc AuthenticationError ''STT authentication failed'' (Some ''STT'')),
                     (now + 1, s))]
       (100, ()))) = Some 103"
  using threshold_trips_breaker [of "new_CircuitBreaker 3 60 ''STT''"
       "[\<lambda>(now, s). (Inl (Exc TimeoutError ''STT service timeout'' (Some ''STT'')), (now + 1, s)),
        \<lambda>(now, s). (Inl (Exc NetworkError ''STT network connection failed'' (Some ''STT'')),
                     (now + 1, s))]"
       "(100, ())"]
    threshold_trips_breaker [of "new_CircuitBreaker 3 60 ''STT''"
       "[\<lambda>(now, s). (Inl (Exc TimeoutError ''STT service timeout'' (Some ''STT'')), (now + 1, s)),
        \<lambda>(now, s). (Inl (Exc NetworkError ''STT network connection failed'' (Some ''STT'')),
                     (now + 1, s)),
        \<lambda>(now, s). (Inl (Exc AuthenticationError ''STT authentication failed'' (Some ''STT'')),
                     (now + 1, s))]"
       "(100, ())"]
  by (simp add: new_CircuitBreaker_def always_fails_def call_def call_gate_def on_failure_def)

text \<open>
  Claim C2. While a breaker is OPEN and less than its timeout has passed since the last
  recorded failure, \<^verbatim>\<open>call\<close> raises the breaker-open exception and does not invoke the
  wrapped function: the invocation counter and the rest of the world are as before.
\<close>

theorem open_breaker_rejects:
  assumes "state b = OPEN" and "last_failure_time b = Some t" and "now - t < timeout b"
  shows "call b (counted f) (now, n, s) = (Inl (circuit_open_error b), b, (now, n, s))"
  using assms by (simp add: call_def call_gate_def should_attempt_reset_def)

theorem open_breaker_rejects_witness:
  "call (new_CircuitBreaker 3 60 ''LLM''\<lparr>state := OPEN, failure_count := 3,
                                          last_failure_time := Some 100\<rparr>)
        (counted (\<lambda>w. (Inr ''a generated response'', w))) (159, 0, ())
   = (Inl (Exc Exception '' [Circuit breaker] OPEN for LLM - failing fast'' None),
      new_CircuitBreaker 3 60 ''LLM''\<lparr>state := OPEN, failure_count := 3,
                                        last_failure_time := Some 100\<rparr>,
      (159, 0, ()))"
  using open_breaker_rejects [of "new_CircuitBreaker 3 60 ''LLM''\<lparr>state := OPEN,
      failure_count := 3, last_failure_time := Some 100\<rparr>" 100 159
      "\<lambda>w. (Inr ''a generated response'', w)" 0 "()"]
  by (simp add: new_CircuitBreaker_def circuit_open_error_def)

text \<open>
  Claim C3. Once at least the timeout has passed since the last recorded failure, the
  next call through an OPEN breaker moves it to HALF\_OPEN and invokes the wrapped function
  exactly once. If the function returns, the breaker ends CLOSED with failure count 0;
  if it raises, the breaker ends OPEN again with the time of that failure recorded. The
  outcome of the call is the outcome of the function.
\<close>

theorem half_open_probe:
  assumes "state b = OPEN" and "last_failure_time b = Some t" and "now - t \<ge> timeout b"
    and "f (now, s) = (r, now', s')"
  shows "call_gate b now = Inr (b\<lparr>state := HALF_OPEN\<rparr>)
    \<and> call b (counted f) (now, n, s) =
        (case r of
           Inr v \<Rightarrow> (Inr v, b\<lparr>state := CLOSED, failure_count := 0, success_count := 0\<rparr>,
                      (now', Suc n, s'))
         | Inl e \<Rightarrow> (Inl e, b\<lparr>state := OPEN, failure_count := failure_count b + 1,
                               last_failure_time := Some now'\<rparr>,
                      (now', Suc n, s')))"
  using assms
  by (simp add: call_def call_gate_def should_attempt_reset_def counted_def on_success_def
      on_failure_def Let_def split: sum.splits)

theorem half_open_probe_witness:
  "call (new_CircuitBreaker 3 60 ''TTS''\<lparr>state := OPEN, failure_count := 3,
                                          last_failure_time := Some 100\<rparr>)
        (counted (\<lambda>(now, s). (Inl (Exc TimeoutError ''TTS service timeout'' (Some ''TTS'')),
                               (now + 2, s)))) (160, 0, ())
   = (Inl (Exc TimeoutError ''TTS service timeout'' (Some ''TTS'')),
      new_CircuitBreaker 3 60 ''TTS''\<lparr>state := OPEN, failure_count := 4,
                                        last_failure_time := Some 162\<rparr>,
      (162, 1, ()))
   \<and> call (new_CircuitBreaker 3 60 ''TTS''\<lparr>state := OPEN, failure_count := 3,
                                          last_failure_time := Some 100\<rparr>)
        (counted (\<lambda>(now, s). (Inr ''audio'', (now + 2, s)))) (160, 0, ())
   = (Inr ''audio'',
      new_CircuitBreaker 3 60 ''TTS''\<lparr>last_failure_time := Some 100\<rparr>,
      (162, 1, ()))"
  using half_open_probe [of "new_CircuitBreaker 3 60 ''TTS''\<lparr>state := OPEN,
      failure_count := 3, last_failure_time := Some 100\<rparr>" 100 160
      "\<lambda>(now, s). (Inl (Exc TimeoutError ''TTS service timeout'' (Some ''TTS'')), (now + 2, s))"
      "()" "Inl (Exc TimeoutError ''TTS service timeout'' (Some ''TTS''))" 162 "()" 0]
    half_open_probe [of "new_CircuitBreaker 3 60 ''TTS''\<lparr>state := OPEN,
      failure_count := 3, last_failure_time := Some 100\<rparr>" 100 160
      "\<lambda>(now, s). (Inr ''audio'', (now + 2, s))"
      "()" "Inr ''audio''" 162 "()" 0]
  by (simp add: new_CircuitBreaker_def)

text \<open>
  Claim C9. A call rejected because the breaker is OPEN and its timeout has not passed
  (or no failure time is recorded) leaves the breaker record as it was: the state, the
  failure count and the time of the last failure are unchanged.
\<close>

theorem rejection_leaves_breaker:
  assumes "state b = OPEN" and "\<not> should_attempt_reset b (fst w)"
  shows "fst (call b f w) = Inl (circuit_open_error b) \<and> fst (snd (call b f w)) = b"
  using assms by (simp add: call_def call_gate_def)

theorem rejection_leaves_breaker_witness:
  "\<not> should_attempt_reset (new_CircuitBreaker 3 60 ''STT''\<lparr>state := OPEN,
        failure_count := 3, last_failure_time := Some 100\<rparr>) 130
   \<and> fst (snd (call (new_CircuitBreaker 3 60 ''STT''\<lparr>state := OPEN, failure_count := 3,
                                                       last_failure_time := Some 100\<rparr>)
        (\<lambda>(now, s). (Inl (Exc NetworkError ''STT network connection failed'' (Some ''STT'')),
                      (now + 1, s)))
        (130, ())))
     = new_CircuitBreaker 3 60 ''STT''\<lparr>state := OPEN, failure_count := 3,
                                         last_failure_time := Some 100\<rparr>"
  using rejection_leaves_breaker [of "new_CircuitBreaker 3 60 ''STT''\<lparr>state := OPEN,
      failure_count := 3, last_failure_time := Some 100\<rparr>" "(130, ())"
      "\<lambda>(now, s). (Inl (Exc NetworkError ''STT network connection failed'' (Some ''STT'')),
                      (now + 1, s))"]
  by (simp add: new_CircuitBreaker_def should_attempt_reset_def call_def call_gate_def)

section \<open>The retry loop\<close>

lemma retry_loop_not_transient:
  assumes "attempt < max_attempts rm" and "f w = (Inl e, w')"
    and "\<not> isinstance e TransientError"
  shows "retry_loop rm f attempt d w = (Inl e, w', [Invoke])"
  using assms by (subst retry_loop.simps) simp

lemma permanent_not_transient:
  "isinstance e PermanentError \<Longrightarrow> \<not> isinstance e TransientError"
  by (cases e; cases "exc_cls e") auto

text \<open>
  Claim C5. When the function raises a \<^verbatim>\<open>PermanentError\<close>, or an exception that is
  neither a \<^verbatim>\<open>TransientError\<close> nor a \<^verbatim>\<open>PermanentError\<close>, \<^verbatim>\<open>execute_with_retry\<close>
  invokes it once, does not sleep, and raises that exception, whatever the number of
  attempts allowed (at least one, as the retry policy requires).
\<close>

theorem permanent_not_retried:
  assumes "1 \<le> max_attempts rm" and "f w = (Inl e, w')"
    and "isinstance e PermanentError
         \<or> (\<not> isinstance e TransientError \<and> \<not> isinstance e PermanentError)"
  shows "execute_with_retry rm f w = (Inl e, w', [Invoke])"
proof -
  from assms(3) have "\<not> isinstance e TransientError"
    using permanent_not_transient by blast
  with assms(1,2) show ?thesis
    unfolding execute_with_retry_def by (intro retry_loop_not_transient) auto
qed

theorem permanent_not_retried_witness:
  "execute_with_retry \<lparr>initial_delay = 5, backoff_multiplier = 2, max_attempts = 7\<rparr>
     (\<lambda>(now, n). (Inl (Exc QuotaExceededError ''LLM quota exceeded'' (Some ''LLM''))
                     :: exc + string, (now + 1, Suc n)))
     (0, 0)
   = (Inl (Exc QuotaExceededError ''LLM quota exceeded'' (Some ''LLM'')), (1, 1), [Invoke])
   \<and> execute_with_retry \<lparr>initial_delay = 5, backoff_multiplier = 2, max_attempts = 7\<rparr>
     (\<lambda>(now, n). (Inl (Exc (OtherException ''KeyError'') ''voice'' None)
                     :: exc + string, (now + 1, Suc n)))
     (0, 0)
   = (Inl (Exc (OtherException ''KeyError'') ''voice'' None), (1, 1), [Invoke])"
  using permanent_not_retried [of "\<lparr>initial_delay = 5, backoff_multiplier = 2, max_attempts = 7\<rparr>"
      "\<lambda>(now, n). (Inl (Exc QuotaExceededError ''LLM quota exceeded'' (Some ''LLM''))
                     :: exc + string, (now + 1, Suc n))"
      "(0, 0)" "Exc QuotaExceededError ''LLM quota exceeded'' (Some ''LLM'')" "(1, 1)"]
    permanent_not_retried [of "\<lparr>initial_delay = 5, backoff_multiplier = 2, max_attempts = 7\<rparr>"
      "\<lambda>(now, n). (Inl (Exc (OtherException ''KeyError'') ''voice'' None)
                     :: exc + string, (now + 1, Suc n))"
      "(0, 0)" "Exc (OtherException ''KeyError'') ''voice'' None" "(1, 1)"]
  by simp

lemma retry_loop_bounds:
  assumes "attempt < max_attempts rm" and "retry_loop rm f attempt d w = (r, w', acts)"
  shows "int (invocations acts) \<le> max_attempts rm - attempt
       \<and> int (length (delays acts)) \<le> max_attempts rm - attempt - 1
       \<and> acts \<noteq> [] \<and> last acts = Invoke"
  using assms
proof (induction rm f attempt d w arbitrary: r w' acts rule: retry_loop.induct)
  case (1 rm func attempt current_delay w)
  obtain res w1 where Pair: "func w = (res, w1)" by (metis surj_pair)
  show ?case
  proof -
    show ?thesis
    proof (cases res)
      case (Inr v)
      with Pair "1.prems" show ?thesis
        by (subst (asm) retry_loop.simps) (auto simp: invocations_def)
    next
      case (Inl e)
      show ?thesis
      proof (cases "isinstance e TransientError \<and> \<not> attempt + 1 \<ge> max_attempts rm")
        case False
        with Pair Inl "1.prems" show ?thesis
          by (subst (asm) retry_loop.simps) (auto simp: invocations_def split: if_splits)
      next
        case True
        show ?thesis
        proof (cases "time_sleep current_delay w1")
          case (Inl err)
          with True Pair \<open>res = Inl e\<close> "1.prems" show ?thesis
            by (subst (asm) retry_loop.simps) (auto simp: invocations_def)
        next
          case (Inr w2)
          obtain r2 w3 acts2 where rec:
            "retry_loop rm func (attempt + 1) (current_delay * backoff_multiplier rm) w2
               = (r2, w3, acts2)"
            by (metis prod_cases3)
          from True have lt: "attempt + 1 < max_attempts rm" by simp
          have ih: "int (invocations acts2) \<le> max_attempts rm - (attempt + 1)
              \<and> int (length (delays acts2)) \<le> max_attempts rm - (attempt + 1) - 1
              \<and> acts2 \<noteq> [] \<and> last acts2 = Invoke"
            using "1.IH" [OF "1.prems"(1) Pair [symmetric] \<open>res = Inl e\<close> _ _ Inr lt rec] True
            by simp
          have "acts = Invoke # Sleep current_delay # acts2"
            using True Pair \<open>res = Inl e\<close> "1.prems" Inr rec
            by (subst (asm) retry_loop.simps) auto
          with ih show ?thesis by (auto simp: invocations_def)
        qed
      qed
    qed
  qed
qed


lemma retry_loop_transient_retry:
  assumes "attempt + 1 < max_attempts rm" and "f w = (Inl e, w1)"
    and "isinstance e TransientError" and "0 \<le> d"
  shows "retry_loop rm f attempt d w =
    (case retry_loop rm f (attempt + 1) (d * backoff_multiplier rm) (fst w1 + d, snd w1) of
       (r, w3, acts) \<Rightarrow> (r, w3, Invoke # Sleep d # acts))"
  using assms by (subst retry_loop.simps) (simp add: time_sleep_def)

lemma retry_loop_transient_last:
  assumes "attempt < max_attempts rm" and "max_attempts rm \<le> attempt + 1"
    and "f w = (Inl e, w1)" and "isinstance e TransientError"
  shows "retry_loop rm f attempt d w = (Inl e, w1, [Invoke])"
  using assms by (subst retry_loop.simps) simp

lemma always_transientD:
  assumes "always_transient f"
  obtains e w1 where "f w = (Inl e, w1)" and "isinstance e TransientError"
proof -
  from assms have "case fst (f w) of Inl e \<Rightarrow> isinstance e TransientError | Inr r \<Rightarrow> False"
    unfolding always_transient_def by blast
  then show thesis
    by (cases "f w"; cases "fst (f w)") (auto intro: that)
qed

text \<open>
  Claim C4. With initial delay 5, multiplier 2 and 3 attempts, a function that raises a
  \<^verbatim>\<open>TransientError\<close> on every invocation is invoked three times, with a sleep of 5 after
  the first failure and of 10 after the second and none after the third, and the
  exception of the third invocation is raised. In general, with \<open>N \<ge> 1\<close> attempts allowed
  there are at most \<open>N\<close> invocations and at most \<open>N - 1\<close> sleeps, and the last action is
  an invocation.
\<close>

theorem transient_retry_schedule:
  "(always_transient f \<longrightarrow>
      (\<exists>e1 w1 e2 w2 e3 w3.
          f w = (Inl e1, w1)
        \<and> f (fst w1 + 5, snd w1) = (Inl e2, w2)
        \<and> f (fst w2 + 10, snd w2) = (Inl e3, w3)
        \<and> execute_with_retry \<lparr>initial_delay = 5, backoff_multiplier = 2, max_attempts = 3\<rparr> f w
            = (Inl e3, w3, [Invoke, Sleep 5, Invoke, Sleep 10, Invoke])))
   \<and> (1 \<le> max_attempts rm \<and> execute_with_retry rm g v = (r, v', acts) \<longrightarrow>
        int (invocations acts) \<le> max_attempts rm
      \<and> int (length (delays acts)) \<le> max_attempts rm - 1
      \<and> last acts = Invoke)"
proof (intro conjI impI)
  assume tr: "always_transient f"
  let ?rm = "\<lparr>initial_delay = 5, backoff_multiplier = 2, max_attempts = 3\<rparr>"
  from tr obtain e1 w1 where 1: "f w = (Inl e1, w1)" "isinstance e1 TransientError"
    by (rule always_transientD)
  from tr obtain e2 w2 where 2: "f (fst w1 + 5, snd w1) = (Inl e2, w2)"
    "isinstance e2 TransientError"
    by (rule always_transientD)
  from tr obtain e3 w3 where 3: "f (fst w2 + 10, snd w2) = (Inl e3, w3)"
    "isinstance e3 TransientError"
    by (rule always_transientD)
  have c: "retry_loop ?rm f 2 20 (fst w2 + 10, snd w2) = (Inl e3, w3, [Invoke])"
    using 3 by (simp add: retry_loop_transient_last)
  have b: "retry_loop ?rm f 1 10 (fst w1 + 5, snd w1)
      = (Inl e3, w3, [Invoke, Sleep 10, Invoke])"
    using 2 c retry_loop_transient_retry [of 1 ?rm f "(fst w1 + 5, snd w1)" e2 w2 10] by simp
  have a: "retry_loop ?rm f 0 5 w = (Inl e3, w3, [Invoke, Sleep 5, Invoke, Sleep 10, Invoke])"
    using 1 b retry_loop_transient_retry [of 0 ?rm f w e1 w1 5] by simp
  have "execute_with_retry ?rm f w
      = (Inl e3, w3, [Invoke, Sleep 5, Invoke, Sleep 10, Invoke])"
    using a by (simp add: execute_with_retry_def)
  with 1(1) 2(1) 3(1) show "\<exists>e1 w1 e2 w2 e3 w3.
          f w = (Inl e1, w1)
        \<and> f (fst w1 + 5, snd w1) = (Inl e2, w2)
        \<and> f (fst w2 + 10, snd w2) = (Inl e3, w3)
        \<and> execute_with_retry ?rm f w
            = (Inl e3, w3, [Invoke, Sleep 5, Invoke, Sleep 10, Invoke])"
    by blast
next
  assume h: "1 \<le> max_attempts rm \<and> execute_with_retry rm g v = (r, v', acts)"
  then have "0 < max_attempts rm" and "retry_loop rm g 0 (initial_delay rm) v = (r, v', acts)"
    by (simp_all add: execute_with_retry_def)
  from retry_loop_bounds [OF this]
  show "int (invocations acts) \<le> max_attempts rm"
    and "int (length (delays acts)) \<le> max_attempts rm - 1"
    and "last acts = Invoke"
    by simp_all
qed

theorem transient_retry_schedule_witness:
  "always_transient (\<lambda>(now, n).
      (Inl (Exc TimeoutError ''STT service timeout'' (Some ''STT'')) :: exc + string,
       (now + 1, Suc n)))
   \<and> execute_with_retry \<lparr>initial_delay = 5, backoff_multiplier = 2, max_attempts = 3\<rparr>
        (\<lambda>(now, n).
           (Inl (Exc TimeoutError ''STT service timeout'' (Some ''STT'')) :: exc + string,
            (now + 1, Suc n)))
        (0, 0)
      = (Inl (Exc TimeoutError ''STT service timeout'' (Some ''STT'')), (18, 3),
         [Invoke, Sleep 5, Invoke, Sleep 10, Invoke])
   \<and> invocations [Invoke, Sleep 5, Invoke, Sleep 10, Invoke] = 3
   \<and> delays [Invoke, Sleep 5, Invoke, Sleep 10, Invoke] = [5, 10]"
proof -
  let ?f = "\<lambda>(now :: real, n :: nat).
     (Inl (Exc TimeoutError ''STT service timeout'' (Some ''STT'')) :: exc + string,
      (now + 1, Suc n))"
  let ?rm = "\<lparr>initial_delay = 5, backoff_multiplier = 2, max_attempts = 3\<rparr>"
  have tr: "always_transient ?f"
    by (simp add: always_transient_def)
  have ex: "execute_with_retry ?rm ?f (0, 0)
      = (Inl (Exc TimeoutError ''STT service timeout'' (Some ''STT'')), (18, 3),
         [Invoke, Sleep 5, Invoke, Sleep 10, Invoke])"
    using transient_retry_schedule [of ?f "(0, 0)" ?rm ?f "(0, 0)"] tr
    by (auto simp: numeral_3_eq_3)
  from transient_retry_schedule [of ?f "(0, 0)" ?rm ?f "(0, 0)", THEN conjunct2] ex
  have "int (invocations [Invoke, Sleep 5, Invoke, Sleep 10, Invoke]) \<le> 3" by simp
  with tr ex show ?thesis by (simp add: invocations_def)
qed

section \<open>The call agent\<close>

lemmas run_defs =
  process_call_def process_call_body_def call_stt_service_def call_llm_service_def
  call_tts_service_def guarded_call_def execute_with_retry_def retry_loop.simps
  new_CallAgent_def new_CircuitBreaker_def through_breaker_def call_def call_gate_def
  on_failure_def on_success_def time_sleep_def stage_handlers_def log_error_def
  send_alert_def get_state_def should_attempt_reset_def circuit_open_error_def

lemma through_breaker_rejected:
  assumes "state b = OPEN" and "\<not> should_attempt_reset b now"
  shows "through_breaker f (now, b, s) = (Inl (circuit_open_error b), (now, b, s))"
  using assms by (simp add: through_breaker_def call_def call_gate_def)

lemma circuit_open_error_kind:
  "exc_cls (circuit_open_error b) = Exception
   \<and> \<not> isinstance (circuit_open_error b) TransientError
   \<and> \<not> isinstance (circuit_open_error b) PermanentError"
  by (simp add: circuit_open_error_def)

lemma execute_with_retry_rejected:
  assumes "state b = OPEN" and "\<not> should_attempt_reset b now" and "1 \<le> max_attempts rm"
  shows "execute_with_retry rm (through_breaker f) (now, b, s)
     = (Inl (circuit_open_error b), (now, b, s), [Invoke])"
  unfolding execute_with_retry_def
  using assms circuit_open_error_kind [of b]
  by (intro retry_loop_not_transient through_breaker_rejected) auto

lemma guarded_call_rejected:
  assumes "state b = OPEN" and "\<not> should_attempt_reset b (fst w)" and "1 \<le> max_attempts rm"
  shows "guarded_call rm b f w = (Inl (circuit_open_error b), b, w)"
  using execute_with_retry_rejected [OF assms, of f "snd w"]
  by (simp add: guarded_call_def)

lemma stage_handlers_other:
  assumes "\<not> isinstance e TransientError" and "\<not> isinstance e PermanentError"
  shows "stage_handlers name b e now ag = ag"
  using assms by (simp add: stage_handlers_def)

lemma call_stt_service_shape:
  assumes "call_stt_service ag f w = (r, ag1, w1)"
  shows "case r of
           Inr v \<Rightarrow> logger ag1 = logger ag \<and> alert_system ag1 = alert_system ag
         | Inl e \<Rightarrow> \<exists>name b now ag0. logger ag0 = logger ag \<and> alert_system ag0 = alert_system ag
                        \<and> ag1 = stage_handlers name b e now ag0"
proof -
  obtain r0 b w0 where g: "guarded_call (retry_manager ag) (stt_breaker ag) f w = (r0, b, w0)"
    by (metis prod_cases3)
  show ?thesis
  proof (cases r0)
    case (Inr v)
    with g assms show ?thesis by (auto simp: call_stt_service_def)
  next
    case (Inl e)
    with g assms have r: "r = Inl e"
      and ag1: "ag1 = stage_handlers ''STT'' b e (fst w0) (ag\<lparr>stt_breaker := b\<rparr>)"
      by (auto simp: call_stt_service_def)
    have "\<exists>name ba now ag0. logger ag0 = logger ag \<and> alert_system ag0 = alert_system ag
        \<and> ag1 = stage_handlers name ba e now ag0"
      unfolding ag1
      by (intro exI [of _ "''STT''"] exI [of _ b] exI [of _ "fst w0"]
          exI [of _ "ag\<lparr>stt_breaker := b\<rparr>"]) simp
    with r show ?thesis by simp
  qed
qed

lemma call_llm_service_shape:
  assumes "call_llm_service ag f w = (r, ag1, w1)"
  shows "case r of
           Inr v \<Rightarrow> logger ag1 = logger ag \<and> alert_system ag1 = alert_system ag
         | Inl e \<Rightarrow> \<exists>name b now ag0. logger ag0 = logger ag \<and> alert_system ag0 = alert_system ag
                        \<and> ag1 = stage_handlers name b e now ag0"
proof -
  obtain r0 b w0 where g: "guarded_call (retry_manager ag) (llm_breaker ag) f w = (r0, b, w0)"
    by (metis prod_cases3)
  show ?thesis
  proof (cases r0)
    case (Inr v)
    with g assms show ?thesis by (auto simp: call_llm_service_def)
  next
    case (Inl e)
    with g assms have r: "r = Inl e"
      and ag1: "ag1 = stage_handlers ''LLM'' b e (fst w0) (ag\<lparr>llm_breaker := b\<rparr>)"
      by (auto simp: call_llm_service_def)
    have "\<exists>name ba now ag0. logger ag0 = logger ag \<and> alert_system ag0 = alert_system ag
        \<and> ag1 = stage_handlers name ba e now ag0"
      unfolding ag1
      by (intro exI [of _ "''LLM''"] exI [of _ b] exI [of _ "fst w0"]
          exI [of _ "ag\<lparr>llm_breaker := b\<rparr>"]) simp
    with r show ?thesis by simp
  qed
qed

lemma call_tts_service_shape:
  assumes "call_tts_service ag f w = (r, ag1, w1)"
  shows "case r of
           Inr v \<Rightarrow> logger ag1 = logger ag \<and> alert_system ag1 = alert_system ag
         | Inl e \<Rightarrow> \<exists>name b now ag0. logger ag0 = logger ag \<and> alert_system ag0 = alert_system ag
                        \<and> ag1 = stage_handlers name b e now ag0"
proof -
  obtain r0 b w0 where g: "guarded_call (retry_manager ag) (tts_breaker ag) f w = (r0, b, w0)"
    by (metis prod_cases3)
  show ?thesis
  proof (cases r0)
    case (Inr v)
    with g assms show ?thesis by (auto simp: call_tts_service_def)
  next
    case (Inl e)
    with g assms have r: "r = Inl e"
      and ag1: "ag1 = stage_handlers ''TTS'' b e (fst w0) (ag\<lparr>tts_breaker := b\<rparr>)"
      by (auto simp: call_tts_service_def)
    have "\<exists>name ba now ag0. logger ag0 = logger ag \<and> alert_system ag0 = alert_system ag
        \<and> ag1 = stage_handlers name ba e now ag0"
      unfolding ag1
      by (intro exI [of _ "''TTS''"] exI [of _ b] exI [of _ "fst w0"]
          exI [of _ "ag\<lparr>tts_breaker := b\<rparr>"]) simp
    with r show ?thesis by simp
  qed
qed

lemma retry_loop_rejected:
  assumes "state b = OPEN" and "\<not> should_attempt_reset b now" and "attempt < max_attempts rm"
  shows "retry_loop rm (through_breaker f) attempt d (now, b, s)
     = (Inl (circuit_open_error b), (now, b, s), [Invoke])"
  using assms circuit_open_error_kind [of b]
  by (intro retry_loop_not_transient through_breaker_rejected) auto

lemma call_stt_service_unclassified:
  assumes "call_stt_service ag f w = (Inl e, ag', w')"
    and "\<not> isinstance e TransientError" and "\<not> isinstance e PermanentError"
  shows "logger ag' = logger ag \<and> alert_system ag' = alert_system ag"
  using call_stt_service_shape [OF assms(1)] assms(2,3)
  by (auto simp: stage_handlers_other)

lemma call_llm_service_unclassified:
  assumes "call_llm_service ag f w = (Inl e, ag', w')"
    and "\<not> isinstance e TransientError" and "\<not> isinstance e PermanentError"
  shows "logger ag' = logger ag \<and> alert_system ag' = alert_system ag"
  using call_llm_service_shape [OF assms(1)] assms(2,3)
  by (auto simp: stage_handlers_other)

lemma call_tts_service_unclassified:
  assumes "call_tts_service ag f w = (Inl e, ag', w')"
    and "\<not> isinstance e TransientError" and "\<not> isinstance e PermanentError"
  shows "logger ag' = logger ag \<and> alert_system ag' = alert_system ag"
  using call_tts_service_shape [OF assms(1)] assms(2,3)
  by (auto simp: stage_handlers_other)

text \<open>
  Claim C10. The exception raised by an OPEN breaker is a plain \<^verbatim>\<open>Exception\<close>, neither
  a \<^verbatim>\<open>TransientError\<close> nor a \<^verbatim>\<open>PermanentError\<close>. Whenever the breaker fails fast, on
  the first attempt or on a later one after the breaker has tripped inside the retry loop,
  the loop invokes the guarded call that once, does not sleep and raises the rejection,
  and the service function is not invoked. A \<^verbatim>\<open>_call_*_service\<close> method that ends in
  the rejection writes no log record and no alert; when the breaker is already OPEN on
  entry the agent is left as it was.
\<close>

theorem breaker_rejection_unreported:
  "exc_cls (circuit_open_error b) = Exception
   \<and> \<not> isinstance (circuit_open_error b) TransientError
   \<and> \<not> isinstance (circuit_open_error b) PermanentError
   \<and> (state b = OPEN \<and> \<not> should_attempt_reset b now \<and> attempt < max_attempts rm \<longrightarrow>
        retry_loop rm (through_breaker (counted f)) attempt d (now, b, n, s)
          = (Inl (circuit_open_error b), (now, b, n, s), [Invoke]))
   \<and> (state b = OPEN \<and> \<not> should_attempt_reset b now \<and> 1 \<le> max_attempts rm \<longrightarrow>
        execute_with_retry rm (through_breaker (counted f)) (now, b, n, s)
          = (Inl (circuit_open_error b), (now, b, n, s), [Invoke]))
   \<and> (call_stt_service ag g w = (Inl (circuit_open_error c), ag', w') \<longrightarrow>
        logger ag' = logger ag \<and> alert_system ag' = alert_system ag)
   \<and> (call_llm_service ag g w = (Inl (circuit_open_error c), ag', w') \<longrightarrow>
        logger ag' = logger ag \<and> alert_system ag' = alert_system ag)
   \<and> (call_tts_service ag g w = (Inl (circuit_open_error c), ag', w') \<longrightarrow>
        logger ag' = logger ag \<and> alert_system ag' = alert_system ag)
   \<and> (state (stt_breaker ag) = OPEN \<and> \<not> should_attempt_reset (stt_breaker ag) (fst w)
        \<and> 1 \<le> max_attempts (retry_manager ag) \<longrightarrow>
        call_stt_service ag g w = (Inl (circuit_open_error (stt_breaker ag)), ag, w))
   \<and> (state (llm_breaker ag) = OPEN \<and> \<not> should_attempt_reset (llm_breaker ag) (fst w)
        \<and> 1 \<le> max_attempts (retry_manager ag) \<longrightarrow>
        call_llm_service ag g w = (Inl (circuit_open_error (llm_breaker ag)), ag, w))
   \<and> (state (tts_breaker ag) = OPEN \<and> \<not> should_attempt_reset (tts_breaker ag) (fst w)
        \<and> 1 \<le> max_attempts (retry_manager ag) \<longrightarrow>
        call_tts_service ag g w = (Inl (circuit_open_error (tts_breaker ag)), ag, w))"
proof -
  note kind = circuit_open_error_kind
  have "call_stt_service ag g w = (Inl (circuit_open_error (stt_breaker ag)), ag, w)"
    if "state (stt_breaker ag) = OPEN" "\<not> should_attempt_reset (stt_breaker ag) (fst w)"
       "1 \<le> max_attempts (retry_manager ag)"
    using guarded_call_rejected [OF that, of g] kind [of "stt_breaker ag"]
    by (simp add: call_stt_service_def stage_handlers_other)
  moreover have "call_llm_service ag g w = (Inl (circuit_open_error (llm_breaker ag)), ag, w)"
    if "state (llm_breaker ag) = OPEN" "\<not> should_attempt_reset (llm_breaker ag) (fst w)"
       "1 \<le> max_attempts (retry_manager ag)"
    using guarded_call_rejected [OF that, of g] kind [of "llm_breaker ag"]
    by (simp add: call_llm_service_def stage_handlers_other)
  moreover have "call_tts_service ag g w = (Inl (circuit_open_error (tts_breaker ag)), ag, w)"
    if "state (tts_breaker ag) = OPEN" "\<not> should_attempt_reset (tts_breaker ag) (fst w)"
       "1 \<le> max_attempts (retry_manager ag)"
    using guarded_call_rejected [OF that, of g] kind [of "tts_breaker ag"]
    by (simp add: call_tts_service_def stage_handlers_other)
  moreover have "logger ag' = logger ag \<and> alert_system ag' = alert_system ag"
    if "call_stt_service ag g w = (Inl (circuit_open_error c), ag', w')"
    using call_stt_service_unclassified [OF that] kind [of c] by simp
  moreover have "logger ag' = logger ag \<and> alert_system ag' = alert_system ag"
    if "call_llm_service ag g w = (Inl (circuit_open_error c), ag', w')"
    using call_llm_service_unclassified [OF that] kind [of c] by simp
  moreover have "logger ag' = logger ag \<and> alert_system ag' = alert_system ag"
    if "call_tts_service ag g w = (Inl (circuit_open_error c), ag', w')"
    using call_tts_service_unclassified [OF that] kind [of c] by simp
  moreover have "retry_loop rm (through_breaker (counted f)) attempt d (now, b, n, s)
          = (Inl (circuit_open_error b), (now, b, n, s), [Invoke])"
    if "state b = OPEN" "\<not> should_attempt_reset b now" "attempt < max_attempts rm"
    using retry_loop_rejected [OF that, of "counted f" d "(n, s)"] .
  moreover have "execute_with_retry rm (through_breaker (counted f)) (now, b, n, s)
          = (Inl (circuit_open_error b), (now, b, n, s), [Invoke])"
    if "state b = OPEN" "\<not> should_attempt_reset b now" "1 \<le> max_attempts rm"
    using execute_with_retry_rejected [OF that, of "counted f" "(n, s)"] .
  ultimately show ?thesis
    using kind [of b] by blast
qed

theorem breaker_rejection_unreported_witness:
  "retry_loop \<lparr>initial_delay = 5, backoff_multiplier = 2, max_attempts = 3\<rparr>
     (through_breaker (counted (\<lambda>(now, k).
        (Inl (Exc TimeoutError ''STT service timeout'' (Some ''STT'')) :: exc + string,
         (now + 1, Suc k)))))
     2 20
     (27, new_CircuitBreaker 3 60 ''STT''
            \<lparr>state := OPEN, failure_count := 3, last_failure_time := Some 17\<rparr>, 2, 2 :: nat)
   = (Inl (Exc Exception '' [Circuit breaker] OPEN for STT - failing fast'' None),
      (27, new_CircuitBreaker 3 60 ''STT''
            \<lparr>state := OPEN, failure_count := 3, last_failure_time := Some 17\<rparr>, 2, 2),
      [Invoke])
   \<and> execute_with_retry \<lparr>initial_delay = 5, backoff_multiplier = 2, max_attempts = 3\<rparr>
     (through_breaker (counted (\<lambda>(now, k).
        (Inl (Exc TimeoutError ''STT service timeout'' (Some ''STT'')) :: exc + string,
         (now + 1, Suc k)))))
     (10, new_CircuitBreaker 3 60 ''STT''
            \<lparr>failure_count := 1, last_failure_time := Some 0\<rparr>, 0, 0 :: nat)
   = (Inl (Exc Exception '' [Circuit breaker] OPEN for STT - failing fast'' None),
      (27, new_CircuitBreaker 3 60 ''STT''
            \<lparr>state := OPEN, failure_count := 3, last_failure_time := Some 17\<rparr>, 2, 2),
      [Invoke, Sleep 5, Invoke, Sleep 10, Invoke])
   \<and> call_stt_service
       (new_CallAgent [] []
          \<lparr>stt_breaker := new_CircuitBreaker 3 60 ''STT''
             \<lparr>failure_count := 1, last_failure_time := Some 0\<rparr>\<rparr>)
       (\<lambda>(now, k).
          (Inl (Exc TimeoutError ''STT service timeout'' (Some ''STT'')) :: exc + string,
           (now + 1, Suc k)))
       (10, 0 :: nat)
   = (Inl (Exc Exception '' [Circuit breaker] OPEN for STT - failing fast'' None),
      new_CallAgent [] []
          \<lparr>stt_breaker := new_CircuitBreaker 3 60 ''STT''
             \<lparr>state := OPEN, failure_count := 3, last_failure_time := Some 17\<rparr>\<rparr>,
      (27, 2))"
proof -
  let ?g = "\<lambda>(now :: real, k :: nat).
     (Inl (Exc TimeoutError ''STT service timeout'' (Some ''STT'')) :: exc + string,
      (now + 1, Suc k))"
  let ?rm = "\<lparr>initial_delay = 5, backoff_multiplier = 2, max_attempts = 3\<rparr>"
  let ?b = "new_CircuitBreaker 3 60 ''STT''
            \<lparr>state := OPEN, failure_count := 3, last_failure_time := Some 17\<rparr>"
  let ?ag = "new_CallAgent [] []
          \<lparr>stt_breaker := new_CircuitBreaker 3 60 ''STT''
             \<lparr>failure_count := 1, last_failure_time := Some 0\<rparr>\<rparr>"
  have last: "retry_loop ?rm (through_breaker (counted ?g)) 2 20 (27, ?b, 2, 2 :: nat)
      = (Inl (circuit_open_error ?b), (27, ?b, 2, 2), [Invoke])"
    using breaker_rejection_unreported
      [where b = ?b and now = 27 and attempt = 2 and rm = ?rm and f = ?g and d = 20
         and n = 2 and s = "2 :: nat", THEN conjunct2, THEN conjunct2, THEN conjunct2,
       THEN conjunct1]
    by (simp add: new_CircuitBreaker_def should_attempt_reset_def)
  have run: "execute_with_retry ?rm (through_breaker (counted ?g))
       (10, new_CircuitBreaker 3 60 ''STT''\<lparr>failure_count := 1, last_failure_time := Some 0\<rparr>,
        0, 0 :: nat)
      = (Inl (circuit_open_error ?b), (27, ?b, 2, 2),
         [Invoke, Sleep 5, Invoke, Sleep 10, Invoke])"
    by (simp add: run_defs counted_def)
  have stage: "call_stt_service ?ag ?g (10, 0 :: nat)
      = (Inl (circuit_open_error ?b), new_CallAgent [] []\<lparr>stt_breaker := ?b\<rparr>, (27, 2))"
    by (simp add: run_defs)
  from last run stage show ?thesis
    by (simp add: circuit_open_error_def new_CircuitBreaker_def)
qed

text \<open>
  Claim C7. Every terminal failure should leave exactly one log record and one alert.
  For the rejection by an open breaker the code does not: a first call whose transcription
  times out on all three attempts opens the STT breaker and is logged and alerted once;
  a second call two seconds later is rejected by the open breaker, \<^verbatim>\<open>process_call\<close>
  ends in that failure, and the agent is as before, with no new log record and no new
  alert.
\<close>

theorem silent_rejection_run:
  "process_call (new_CallAgent [] [])
     \<lparr>transcribe = (\<lambda>a (now, k).
          (Inl (Exc TimeoutError ''STT service timeout'' (Some ''STT'')), (now + 1, Suc k))),
      generate_response = (\<lambda>t u. (Inr ''response'', u)),
      synthesize = (\<lambda>r u. (Inr ''audio'', u))\<rparr>
     ''call 1'' (0, 0 :: nat)
   = (None :: string option,
      new_CallAgent
        [\<lparr>log_timestamp = 18, log_service_name = ''STT'', error_type = ''TransientError'',
          error_message = ''STT service timeout'', retry_count = 0, circuit_state = ''OPEN''\<rparr>]
        [\<lparr>alert_timestamp = 18, severity = ''MEDIUM'', alert_service_name = ''STT'',
          alert_message = ''Transient error: STT service timeout'', status = ''UNRESOLVED''\<rparr>]
        \<lparr>stt_breaker := new_CircuitBreaker 3 60 ''STT''
            \<lparr>state := OPEN, failure_count := 3, last_failure_time := Some 18\<rparr>\<rparr>,
      (18, 3))
   \<and> process_call_body
      (new_CallAgent
        [\<lparr>log_timestamp = 18, log_service_name = ''STT'', error_type = ''TransientError'',
          error_message = ''STT service timeout'', retry_count = 0, circuit_state = ''OPEN''\<rparr>]
        [\<lparr>alert_timestamp = 18, severity = ''MEDIUM'', alert_service_name = ''STT'',
          alert_message = ''Transient error: STT service timeout'', status = ''UNRESOLVED''\<rparr>]
        \<lparr>stt_breaker := new_CircuitBreaker 3 60 ''STT''
            \<lparr>state := OPEN, failure_count := 3, last_failure_time := Some 18\<rparr>\<rparr>)
     \<lparr>transcribe = (\<lambda>a (now, k).
          (Inl (Exc TimeoutError ''STT service timeout'' (Some ''STT'')), (now + 1, Suc k))),
      generate_response = (\<lambda>t u. (Inr ''response'', u)),
      synthesize = (\<lambda>r u. (Inr ''audio'', u))\<rparr>
     ''call 2'' (20, 3 :: nat)
   = (Inl (Exc Exception '' [Circuit breaker] OPEN for STT - failing fast'' None)
        :: exc + string option,
      new_CallAgent
        [\<lparr>log_timestamp = 18, log_service_name = ''STT'', error_type = ''TransientError'',
          error_message = ''STT service timeout'', retry_count = 0, circuit_state = ''OPEN''\<rparr>]
        [\<lparr>alert_timestamp = 18, severity = ''MEDIUM'', alert_service_name = ''STT'',
          alert_message = ''Transient error: STT service timeout'', status = ''UNRESOLVED''\<rparr>]
        \<lparr>stt_breaker := new_CircuitBreaker 3 60 ''STT''
            \<lparr>state := OPEN, failure_count := 3, last_failure_time := Some 18\<rparr>\<rparr>,
      (20, 3))"
  by (simp add: run_defs)

lemma stage_handlers_report:
  "(isinstance e TransientError \<longrightarrow>
      (\<exists>l al. logger (stage_handlers name b e now ag) = logger ag @ [l]
          \<and> error_type l = ''TransientError'' \<and> error_message l = message e
          \<and> alert_system (stage_handlers name b e now ag) = alert_system ag @ [al]
          \<and> severity al = ''MEDIUM''))
   \<and> (isinstance e PermanentError \<longrightarrow>
      (\<exists>l al. logger (stage_handlers name b e now ag) = logger ag @ [l]
          \<and> error_type l = ''PermanentError'' \<and> error_message l = message e
          \<and> alert_system (stage_handlers name b e now ag) = alert_system ag @ [al]
          \<and> severity al = ''HIGH''))
   \<and> (\<not> isinstance e TransientError \<and> \<not> isinstance e PermanentError \<longrightarrow>
        logger (stage_handlers name b e now ag) = logger ag
      \<and> alert_system (stage_handlers name b e now ag) = alert_system ag)"
  using permanent_not_transient [of e]
  by (auto simp: stage_handlers_def log_error_def send_alert_def)

lemma process_call_body_failure:
  assumes "process_call_body ag svcs a w = (Inl e, ag', w')"
  shows "\<exists>name b now ag0. logger ag0 = logger ag \<and> alert_system ag0 = alert_system ag
           \<and> ag' = stage_handlers name b e now ag0"
proof -
  obtain r1 ag1 w1 where s1: "call_stt_service ag (transcribe svcs a) w = (r1, ag1, w1)"
    by (metis prod_cases3)
  note h1 = call_stt_service_shape [OF s1]
  show ?thesis
  proof (cases r1)
    case (Inl e1)
    with s1 assms have "e1 = e" "ag1 = ag'" by (auto simp: process_call_body_def)
    with h1 Inl show ?thesis by simp
  next
    case (Inr transcript)
    with h1 have k1: "logger ag1 = logger ag" "alert_system ag1 = alert_system ag" by simp_all
    obtain r2 ag2 w2 where
      s2: "call_llm_service ag1 (generate_response svcs transcript) w1 = (r2, ag2, w2)"
      by (metis prod_cases3)
    note h2 = call_llm_service_shape [OF s2]
    show ?thesis
    proof (cases r2)
      case (Inl e2)
      with s1 s2 Inr assms have "e2 = e" "ag2 = ag'" by (auto simp: process_call_body_def)
      with h2 Inl k1 show ?thesis by simp
    next
      case r2: (Inr response)
      with h2 k1 have k2: "logger ag2 = logger ag" "alert_system ag2 = alert_system ag"
        by simp_all
      obtain r3 ag3 w3 where
        s3: "call_tts_service ag2 (synthesize svcs response) w2 = (r3, ag3, w3)"
        by (metis prod_cases3)
      note h3 = call_tts_service_shape [OF s3]
      show ?thesis
      proof (cases r3)
        case (Inl e3)
        with s1 s2 s3 Inr r2 assms have "e3 = e" "ag3 = ag'"
          by (auto simp: process_call_body_def)
        with h3 Inl k2 show ?thesis by simp
      next
        case r3: (Inr out)
        with s1 s2 s3 Inr r2 assms show ?thesis by (simp add: process_call_body_def)
      qed
    qed
  qed
qed

text \<open>
  A terminal failure that is a \<^verbatim>\<open>TransientError\<close> or a \<^verbatim>\<open>PermanentError\<close> is reported:
  \<^verbatim>\<open>process_call\<close> returns \<^verbatim>\<open>None\<close> once exactly one log record and exactly one alert,
  of severity MEDIUM or HIGH, have been added.
\<close>

lemma classified_failure_reported:
  assumes "process_call_body ag svcs a w = (Inl e, ag', w')"
  shows "process_call ag svcs a w = (None, ag', w')
   \<and> (isinstance e TransientError \<longrightarrow>
      (\<exists>l al. logger ag' = logger ag @ [l]
          \<and> error_type l = ''TransientError'' \<and> error_message l = message e
          \<and> alert_system ag' = alert_system ag @ [al] \<and> severity al = ''MEDIUM''))
   \<and> (isinstance e PermanentError \<longrightarrow>
      (\<exists>l al. logger ag' = logger ag @ [l]
          \<and> error_type l = ''PermanentError'' \<and> error_message l = message e
          \<and> alert_system ag' = alert_system ag @ [al] \<and> severity al = ''HIGH''))"
proof -
  from process_call_body_failure [OF assms] obtain name b now ag0 where
    k: "logger ag0 = logger ag" "alert_system ag0 = alert_system ag"
    and ag': "ag' = stage_handlers name b e now ag0"
    by blast
  have "process_call ag svcs a w = (None, ag', w')"
    using assms by (simp add: process_call_def)
  then show ?thesis
    using stage_handlers_report [of e name b now ag0] k unfolding ag' by simp
qed

text \<open>
  Claim C8 as it is stated fails. A call aborted in the first stage by a
  \<^verbatim>\<open>PermanentError\<close> and a call aborted in the second stage by a \<^verbatim>\<open>TransientError\<close>
  return the same value, \<^verbatim>\<open>None\<close>: the value returned carries neither the kind of the
  failure nor the name of the stage.
\<close>

theorem aborted_result_counterexample:
  "fst (process_call_body (new_CallAgent [] [])
     (\<lparr>transcribe = (\<lambda>a (now, k). (Inl (Exc AuthenticationError ''STT authentication failed'' (Some ''STT'')), (now + 1, Suc k))),
      generate_response = (\<lambda>t (now, k). (Inr ''a response'', (now + 1, Suc k))),
      synthesize = (\<lambda>r (now, k). (Inr ''audio'', (now + 1, Suc k)))\<rparr>
      :: (nat, string, string, string, string) services)
     ''call'' (0, 0 :: nat))
   = (Inl (Exc AuthenticationError ''STT authentication failed'' (Some ''STT''))
        :: exc + string option)
   \<and> fst (process_call (new_CallAgent [] [])
     (\<lparr>transcribe = (\<lambda>a (now, k). (Inl (Exc AuthenticationError ''STT authentication failed'' (Some ''STT'')), (now + 1, Suc k))),
      generate_response = (\<lambda>t (now, k). (Inr ''a response'', (now + 1, Suc k))),
      synthesize = (\<lambda>r (now, k). (Inr ''audio'', (now + 1, Suc k)))\<rparr>
      :: (nat, string, string, string, string) services)
     ''call'' (0, 0 :: nat))
   = (None :: string option)
   \<and> fst (process_call_body (new_CallAgent [] [])
     (\<lparr>transcribe = (\<lambda>a (now, k). (Inr ''hello'', (now + 1, Suc k))),
      generate_response = (\<lambda>t (now, k). (Inl (Exc TimeoutError ''LLM service timeout'' (Some ''LLM'')), (now + 1, Suc k))),
      synthesize = (\<lambda>r (now, k). (Inr ''audio'', (now + 1, Suc k)))\<rparr>
      :: (nat, string, string, string, string) services)
     ''call'' (0, 0 :: nat))
   = (Inl (Exc TimeoutError ''LLM service timeout'' (Some ''LLM''))
        :: exc + string option)
   \<and> fst (process_call (new_CallAgent [] [])
     (\<lparr>transcribe = (\<lambda>a (now, k). (Inr ''hello'', (now + 1, Suc k))),
      generate_response = (\<lambda>t (now, k). (Inl (Exc TimeoutError ''LLM service timeout'' (Some ''LLM'')), (now + 1, Suc k))),
      synthesize = (\<lambda>r (now, k). (Inr ''audio'', (now + 1, Suc k)))\<rparr>
      :: (nat, string, string, string, string) services)
     ''call'' (0, 0 :: nat))
   = (None :: string option)"
  by (simp add: run_defs)

lemma retry_loop_invariant:
  assumes "P w"
    and "\<And>u. P u \<Longrightarrow> P (snd (f u))"
    and "\<And>d u u2. P u \<Longrightarrow> time_sleep d u = Inr u2 \<Longrightarrow> P u2"
  shows "P (fst (snd (retry_loop rm f attempt d w)))"
  using assms
proof (induction rm f attempt d w rule: retry_loop.induct)
  case (1 rm func attempt current_delay w)
  note pres = "1.prems"(2) and sleep = "1.prems"(3)
  obtain res w1 where fw: "func w = (res, w1)" by (metis surj_pair)
  have w1: "P w1" using pres [OF "1.prems"(1)] fw by simp
  show ?case
  proof (cases "attempt < max_attempts rm")
    case False
    with "1.prems"(1) show ?thesis by (subst retry_loop.simps) simp
  next
    case lt: True
    show ?thesis
    proof (cases res)
      case (Inr v)
      with lt fw w1 show ?thesis by (subst retry_loop.simps) simp
    next
      case (Inl e)
      show ?thesis
      proof (cases "isinstance e TransientError \<and> \<not> attempt + 1 \<ge> max_attempts rm")
        case False
        with lt fw Inl w1 show ?thesis by (subst retry_loop.simps) auto
      next
        case True
        show ?thesis
        proof (cases "time_sleep current_delay w1")
          case sl: (Inl err)
          with True lt fw Inl w1 show ?thesis by (subst retry_loop.simps) auto
        next
          case sl: (Inr w2)
          have w2: "P w2" using sleep [OF w1 sl] .
          have "P (fst (snd (retry_loop rm func (attempt + 1)
                   (current_delay * backoff_multiplier rm) w2)))"
            using "1.IH" [OF lt fw [symmetric] Inl _ _ sl w2 pres sleep] True by simp
          with True lt fw Inl sl show ?thesis
            by (subst retry_loop.simps) (auto split: prod.splits)
        qed
      qed
    qed
  qed
qed

lemma through_breaker_uncounted:
  "fst (snd (snd (snd (through_breaker (uncounted f) (now, b, n, s))))) = n"
  by (auto simp: through_breaker_def uncounted_def call_def split: sum.splits prod.splits)

lemma guarded_call_uncounted:
  fixes f :: "('s, 'a) callable" and w :: "(nat \<times> 's) world"
  shows "counter (snd (snd (guarded_call rm b (uncounted f) w))) = counter w"
proof -
  let ?P = "\<lambda>u :: (CircuitBreaker \<times> nat \<times> 's) world. fst (snd (snd u)) = counter w"
  have "?P (fst (snd (retry_loop rm (through_breaker (uncounted f)) 0 (initial_delay rm)
                  (fst w, b, snd w))))"
  proof (rule retry_loop_invariant [where P = ?P])
    show "?P (fst w, b, snd w)" by (simp add: counter_def)
  next
    fix u :: "(CircuitBreaker \<times> nat \<times> 's) world"
    assume "?P u"
    then show "?P (snd (through_breaker (uncounted f) u))"
      by (cases u) (auto simp: through_breaker_uncounted)
  next
    fix d and u u2 :: "(CircuitBreaker \<times> nat \<times> 's) world"
    assume "?P u" "time_sleep d u = Inr u2"
    then show "?P u2" by (auto simp: time_sleep_def split: if_splits)
  qed
  then show ?thesis
    by (auto simp: guarded_call_def execute_with_retry_def counter_def split: prod.splits)
qed

lemma call_stt_service_uncounted:
  "counter (snd (snd (call_stt_service ag (uncounted f) w))) = counter w"
  using guarded_call_uncounted [of "retry_manager ag" "stt_breaker ag" f w]
  by (auto simp: call_stt_service_def split: prod.splits sum.splits)

lemma call_llm_service_uncounted:
  "counter (snd (snd (call_llm_service ag (uncounted f) w))) = counter w"
  using guarded_call_uncounted [of "retry_manager ag" "llm_breaker ag" f w]
  by (auto simp: call_llm_service_def split: prod.splits sum.splits)

text \<open>
  Claim C8, amended. A failure of a stage ends the pipeline there: \<^verbatim>\<open>process_call\<close>
  returns \<^verbatim>\<open>None\<close> with the agent and the world as that stage left them, and the
  functions of the later stages are not invoked (their invocation counter is unchanged).
  When the three stages succeed, \<^verbatim>\<open>process_call\<close> returns what the last stage returned.
\<close>

theorem failure_aborts_pipeline:
  "(call_stt_service ag (transcribe svcs a) w = (Inl e, ag1, w1) \<longrightarrow>
      process_call ag svcs a w = (None, ag1, w1))
   \<and> (call_stt_service ag (transcribe svcs a) w = (Inr transcript, ag1, w1)
      \<and> call_llm_service ag1 (generate_response svcs transcript) w1 = (Inl e, ag2, w2) \<longrightarrow>
      process_call ag svcs a w = (None, ag2, w2))
   \<and> (call_stt_service ag (transcribe svcs a) w = (Inr transcript, ag1, w1)
      \<and> call_llm_service ag1 (generate_response svcs transcript) w1 = (Inr response, ag2, w2)
      \<and> call_tts_service ag2 (synthesize svcs response) w2 = (Inl e, ag3, w3) \<longrightarrow>
      process_call ag svcs a w = (None, ag3, w3))
   \<and> (call_stt_service ag (transcribe svcs a) w = (Inr transcript, ag1, w1)
      \<and> call_llm_service ag1 (generate_response svcs transcript) w1 = (Inr response, ag2, w2)
      \<and> call_tts_service ag2 (synthesize svcs response) w2 = (Inr audio_output, ag3, w3) \<longrightarrow>
      process_call ag svcs a w = (audio_output, ag3, w3))
   \<and> (call_stt_service ag (transcribe (count_from_llm cs) a) v = (Inl e, ag1, v1) \<longrightarrow>
      counter (snd (snd (process_call ag (count_from_llm cs) a v))) = counter v)
   \<and> (call_stt_service ag (transcribe (count_from_tts cs) a) v = (Inr transcript, ag1, v1)
      \<and> call_llm_service ag1 (generate_response (count_from_tts cs) transcript) v1
          = (Inl e, ag2, v2) \<longrightarrow>
      counter (snd (snd (process_call ag (count_from_tts cs) a v))) = counter v)"
proof (intro conjI impI)
  assume h: "call_stt_service ag (transcribe (count_from_llm cs) a) v = (Inl e, ag1, v1)"
  have "counter v1 = counter v"
    using call_stt_service_uncounted [of ag "transcribe cs a" v] h
    by (simp add: count_from_llm_def)
  with h show "counter (snd (snd (process_call ag (count_from_llm cs) a v))) = counter v"
    by (simp add: process_call_def process_call_body_def)
next
  assume h: "call_stt_service ag (transcribe (count_from_tts cs) a) v = (Inr transcript, ag1, v1)
      \<and> call_llm_service ag1 (generate_response (count_from_tts cs) transcript) v1
          = (Inl e, ag2, v2)"
  have "counter v1 = counter v"
    using call_stt_service_uncounted [of ag "transcribe cs a" v] h
    by (simp add: count_from_tts_def)
  moreover have "counter v2 = counter v1"
    using call_llm_service_uncounted [of ag1 "generate_response cs transcript" v1] h
    by (simp add: count_from_tts_def)
  ultimately show "counter (snd (snd (process_call ag (count_from_tts cs) a v))) = counter v"
    using h by (simp add: process_call_def process_call_body_def)
qed (simp_all add: process_call_def process_call_body_def)

theorem failure_aborts_pipeline_witness:
  "process_call (new_CallAgent [] [])
     (\<lparr>transcribe = (\<lambda>a (now, k). (Inr ''hello'', (now + 1, Suc k))),
      generate_response = (\<lambda>t (now, k). (Inl (Exc QuotaExceededError ''LLM quota exceeded'' (Some ''LLM'')), (now + 1, Suc k))),
      synthesize = (\<lambda>r (now, k). (Inr ''audio'', (now + 1, Suc k)))\<rparr>
      :: (nat, string, string, string, string) services)
     ''call'' (0, 0 :: nat)
   = (None :: string option,
      (new_CallAgent
        [\<lparr>log_timestamp = 2, log_service_name = ''LLM'', error_type = ''PermanentError'',
          error_message = ''LLM quota exceeded'', retry_count = 0,
          circuit_state = ''CLOSED''\<rparr>]
        [\<lparr>alert_timestamp = 2, severity = ''HIGH'', alert_service_name = ''LLM'',
          alert_message = ''Permanent error: LLM quota exceeded'',
          status = ''UNRESOLVED''\<rparr>]
        \<lparr>llm_breaker := new_CircuitBreaker 3 60 ''LLM''
            \<lparr>failure_count := 1, last_failure_time := Some 2\<rparr>\<rparr>),
      (2, 2))
   \<and> counter (snd (snd (process_call (new_CallAgent [] [])
     (count_from_tts
     (\<lparr>transcribe = (\<lambda>a (now, k). (Inr ''hello'', (now + 1, Suc k))),
      generate_response = (\<lambda>t (now, k). (Inl (Exc QuotaExceededError ''LLM quota exceeded'' (Some ''LLM'')), (now + 1, Suc k))),
      synthesize = (\<lambda>r (now, k). (Inr ''audio'', (now + 1, Suc k)))\<rparr>
      :: (nat, string, string, string, string) services))
     ''call'' (0, 0, 0 :: nat)))) = 0
   \<and> process_call (new_CallAgent [] [])
     (\<lparr>transcribe = (\<lambda>a (now, k). (Inr ''hello'', (now + 1, Suc k))),
      generate_response = (\<lambda>t (now, k). (Inr ''a response'', (now + 1, Suc k))),
      synthesize = (\<lambda>r (now, k). (Inr ''audio'', (now + 1, Suc k)))\<rparr>
      :: (nat, string, string, string, string) services)
     ''call'' (0, 0 :: nat)
   = (Some ''audio'', (new_CallAgent [] []), (3, 3))"
proof -
  have 1: "call_stt_service (new_CallAgent [] [])
      (transcribe
     (\<lparr>transcribe = (\<lambda>a (now, k). (Inr ''hello'', (now + 1, Suc k))),
      generate_response = (\<lambda>t (now, k). (Inl (Exc QuotaExceededError ''LLM quota exceeded'' (Some ''LLM'')), (now + 1, Suc k))),
      synthesize = (\<lambda>r (now, k). (Inr ''audio'', (now + 1, Suc k)))\<rparr>
      :: (nat, string, string, string, string) services)
      ''call'') (0, 0 :: nat) = (Inr (Some ''hello''), (new_CallAgent [] []), (1, 1))"
    by (simp add: run_defs)
  have 2: "call_llm_service (new_CallAgent [] [])
      (generate_response
     (\<lparr>transcribe = (\<lambda>a (now, k). (Inr ''hello'', (now + 1, Suc k))),
      generate_response = (\<lambda>t (now, k). (Inl (Exc QuotaExceededError ''LLM quota exceeded'' (Some ''LLM'')), (now + 1, Suc k))),
      synthesize = (\<lambda>r (now, k). (Inr ''audio'', (now + 1, Suc k)))\<rparr>
      :: (nat, string, string, string, string) services)
      (Some ''hello'')) (1, 1 :: nat)
    = (Inl (Exc QuotaExceededError ''LLM quota exceeded'' (Some ''LLM'')) :: exc + string option,
       (new_CallAgent
        [\<lparr>log_timestamp = 2, log_service_name = ''LLM'', error_type = ''PermanentError'',
          error_message = ''LLM quota exceeded'', retry_count = 0,
          circuit_state = ''CLOSED''\<rparr>]
        [\<lparr>alert_timestamp = 2, severity = ''HIGH'', alert_service_name = ''LLM'',
          alert_message = ''Permanent error: LLM quota exceeded'',
          status = ''UNRESOLVED''\<rparr>]
        \<lparr>llm_breaker := new_CircuitBreaker 3 60 ''LLM''
            \<lparr>failure_count := 1, last_failure_time := Some 2\<rparr>\<rparr>), (2, 2))"
    by (simp add: run_defs)
  have 3: "call_stt_service (new_CallAgent [] [])
      (transcribe (count_from_tts
     (\<lparr>transcribe = (\<lambda>a (now, k). (Inr ''hello'', (now + 1, Suc k))),
      generate_response = (\<lambda>t (now, k). (Inl (Exc QuotaExceededError ''LLM quota exceeded'' (Some ''LLM'')), (now + 1, Suc k))),
      synthesize = (\<lambda>r (now, k). (Inr ''audio'', (now + 1, Suc k)))\<rparr>
      :: (nat, string, string, string, string) services))
      ''call'') (0, 0, 0 :: nat) = (Inr (Some ''hello''), (new_CallAgent [] []), (1, 0, 1))"
    by (simp add: run_defs count_from_tts_def uncounted_def counted_def)
  have 4: "call_llm_service (new_CallAgent [] [])
      (generate_response (count_from_tts
     (\<lparr>transcribe = (\<lambda>a (now, k). (Inr ''hello'', (now + 1, Suc k))),
      generate_response = (\<lambda>t (now, k). (Inl (Exc QuotaExceededError ''LLM quota exceeded'' (Some ''LLM'')), (now + 1, Suc k))),
      synthesize = (\<lambda>r (now, k). (Inr ''audio'', (now + 1, Suc k)))\<rparr>
      :: (nat, string, string, string, string) services))
      (Some ''hello'')) (1, 0, 1 :: nat)
    = (Inl (Exc QuotaExceededError ''LLM quota exceeded'' (Some ''LLM'')) :: exc + string option,
       (new_CallAgent
        [\<lparr>log_timestamp = 2, log_service_name = ''LLM'', error_type = ''PermanentError'',
          error_message = ''LLM quota exceeded'', retry_count = 0,
          circuit_state = ''CLOSED''\<rparr>]
        [\<lparr>alert_timestamp = 2, severity = ''HIGH'', alert_service_name = ''LLM'',
          alert_message = ''Permanent error: LLM quota exceeded'',
          status = ''UNRESOLVED''\<rparr>]
        \<lparr>llm_breaker := new_CircuitBreaker 3 60 ''LLM''
            \<lparr>failure_count := 1, last_failure_time := Some 2\<rparr>\<rparr>), (2, 0, 2))"
    by (simp add: run_defs count_from_tts_def uncounted_def counted_def)
  have 5: "call_stt_service (new_CallAgent [] [])
      (transcribe
     (\<lparr>transcribe = (\<lambda>a (now, k). (Inr ''hello'', (now + 1, Suc k))),
      generate_response = (\<lambda>t (now, k). (Inr ''a response'', (now + 1, Suc k))),
      synthesize = (\<lambda>r (now, k). (Inr ''audio'', (now + 1, Suc k)))\<rparr>
      :: (nat, string, string, string, string) services)
      ''call'') (0, 0 :: nat) = (Inr (Some ''hello''), (new_CallAgent [] []), (1, 1))"
    by (simp add: run_defs)
  have 6: "call_llm_service (new_CallAgent [] [])
      (generate_response
     (\<lparr>transcribe = (\<lambda>a (now, k). (Inr ''hello'', (now + 1, Suc k))),
      generate_response = (\<lambda>t (now, k). (Inr ''a response'', (now + 1, Suc k))),
      synthesize = (\<lambda>r (now, k). (Inr ''audio'', (now + 1, Suc k)))\<rparr>
      :: (nat, string, string, string, string) services)
      (Some ''hello'')) (1, 1 :: nat) = (Inr (Some ''a response''), (new_CallAgent [] []), (2, 2))"
    by (simp add: run_defs)
  have 7: "call_tts_service (new_CallAgent [] [])
      (synthesize
     (\<lparr>transcribe = (\<lambda>a (now, k). (Inr ''hello'', (now + 1, Suc k))),
      generate_response = (\<lambda>t (now, k). (Inr ''a response'', (now + 1, Suc k))),
      synthesize = (\<lambda>r (now, k). (Inr ''audio'', (now + 1, Suc k)))\<rparr>
      :: (nat, string, string, string, string) services)
      (Some ''a response'')) (2, 2 :: nat) = (Inr (Some ''audio''), (new_CallAgent [] []), (3, 3))"
    by (simp add: run_defs)
  note fap = failure_aborts_pipeline
  from fap [THEN conjunct2, THEN conjunct1, rule_format, OF conjI, OF 1 2]
    fap [THEN conjunct2, THEN conjunct2, THEN conjunct2, THEN conjunct2, THEN conjunct2,
         rule_format, OF conjI, OF 3 4]
    fap [THEN conjunct2, THEN conjunct2, THEN conjunct2, THEN conjunct1, rule_format,
         OF conjI, OF 5 conjI, OF 6 7]
  show ?thesis by (simp add: counter_def)
qed

end
